theory Spec2Isabelle
  imports Main
begin

section \<open>The Google translator adapters of translators/GoogleTranslator/index.ts\<close>

text \<open>
  A JavaScript string is modelled as a \<^typ>\<open>string\<close>, one \<^typ>\<open>char\<close> per code unit (the
  code units below 256), so that \<^term>\<open>length s\<close> is the \<^verbatim>\<open>.length\<close> of the source.
  Numbers that count characters or index arrays are natural numbers or integers.
\<close>

subsection \<open>Language codes\<close>

text \<open>
  \<^verbatim>\<open>fixedLanguagesMap\<close> (lines 20-23) is a record with the two keys \<^verbatim>\<open>he\<close> and
  \<^verbatim>\<open>jv\<close>. It is indexed with a language code (type \<^verbatim>\<open>langCodeWithAuto\<close>), for
  which indexing the record is a lookup among these two keys.
\<close>

definition fixedLanguagesMap :: "string \<rightharpoonup> string" where
  "fixedLanguagesMap = [''he'' \<mapsto> ''iw'', ''jv'' \<mapsto> ''jw'']"

text \<open>
  \<^verbatim>\<open>getFixedLanguage\<close> (lines 77-80); \<^verbatim>\<open>a ?? b\<close> is \<^verbatim>\<open>b\<close> when the lookup finds
  nothing.
\<close>

definition getFixedLanguage :: "string \<Rightarrow> string" where
  "getFixedLanguage lang =
     (if lang = ''zh'' then ''zh-CN''
      else case fixedLanguagesMap lang of Some v \<Rightarrow> v | None \<Rightarrow> lang)"

text \<open>\<^verbatim>\<open>getLengthLimit\<close> (lines 69-71).\<close>

definition getLengthLimit :: int where
  "getLengthLimit = 4000"


subsection \<open>Strings and arrays of the runtime\<close>

text \<open>
  \<^verbatim>\<open>Array.prototype.join\<close>: the elements with the separator between neighbours.
\<close>

fun join :: "string \<Rightarrow> string list \<Rightarrow> string" where
  "join sep [] = []"
| "join sep [x] = x"
| "join sep (x # y # zs) = x @ sep @ join sep (y # zs)"

text \<open>
  \<^verbatim>\<open>String.prototype.toLowerCase\<close> on the code units below 256: the letters
  \<^verbatim>\<open>A\<close> to \<^verbatim>\<open>Z\<close> and the capital letters of Latin-1 (192 to 222, but not the
  multiplication sign 215) move up by 32; every other code unit stays.
\<close>

definition toLowerCase_char :: "char \<Rightarrow> char" where
  "toLowerCase_char c =
     (let n = (of_char c :: nat)
      in if (65 \<le> n \<and> n \<le> 90) \<or> (192 \<le> n \<and> n \<le> 222 \<and> n \<noteq> 215)
         then char_of (n + 32) else c)"

definition toLowerCase :: "string \<Rightarrow> string" where
  "toLowerCase s = map toLowerCase_char s"

text \<open>The decimal numeral that a template literal writes for an array index.\<close>

definition digit_char :: "nat \<Rightarrow> char" where
  "digit_char d = ''0123456789'' ! d"

fun Number_toString :: "nat \<Rightarrow> string" where
  "Number_toString n =
     (if n < 10 then [digit_char n]
      else Number_toString (n div 10) @ [digit_char (n mod 10)])"

declare Number_toString.simps [simp del]

subsection \<open>The markup encoder and the length check\<close>

text \<open>
  \<^verbatim>\<open>encodeForBatch\<close> (lines 229-231): \<^verbatim>\<open>textList.map((text, i) => ...)\<close> wraps the
  text at index \<^verbatim>\<open>i\<close> into a \<^verbatim>\<open>pre\<close> element holding one \<^verbatim>\<open>a\<close> element
  whose attribute \<^verbatim>\<open>i\<close> is the index.
\<close>

definition encodeForBatch :: "string list \<Rightarrow> string list" where
  \<open>encodeForBatch textList =
     map (\<lambda>(i, text). ''<pre><a i="'' @ Number_toString i @ ''">'' @ text @ ''</a></pre>'')
       (enumerate 0 textList)\<close>

text \<open>
  The argument of \<^verbatim>\<open>checkLimitExceeding\<close> has type \<^verbatim>\<open>string | string[]\<close>.
\<close>

datatype text_arg = OneText string | TextArray "string list"

text \<open>\<^verbatim>\<open>GoogleTranslator.checkLimitExceeding\<close> (lines 89-98).\<close>

fun checkLimitExceeding :: "text_arg \<Rightarrow> int" where
  "checkLimitExceeding (TextArray text) =
     (let encodedText = join [] (encodeForBatch text);
          extra = int (length encodedText) - getLengthLimit
      in if extra > 0 then extra else 0)"
| "checkLimitExceeding (OneText text) =
     (let extra = int (length text) - getLengthLimit
      in if extra > 0 then extra else 0)"

subsection \<open>Replies\<close>

text \<open>
  The reply of the service is whatever the transport parsed from the response body:
  any JSON value.
\<close>

datatype json =
    JNull
  | JBool bool
  | JNum int
  | JStr string
  | JArr "json list"
  | JObj "(string \<times> json) list"

text \<open>
  Modelled from the spec: \<^verbatim>\<open>visitArrayItems\<close> is imported from \<^verbatim>\<open>./utils\<close>, which is
  not among the source files. The spec's Leaf Flattener (section 4.1) visits every leaf
  of the nested arrays once, depth-first and left to right, calling the visitor with the
  leaf; an array is never visited itself, only entered. Every value that is not an array
  is a leaf. The visitor of the source is a closure that pushes onto an array; here it
  takes the array built so far and returns the new one.
\<close>

fun visitArrayItems :: "json list \<Rightarrow> (json \<Rightarrow> 's \<Rightarrow> 's) \<Rightarrow> 's \<Rightarrow> 's" where
  "visitArrayItems [] visitor s = s"
| "visitArrayItems (JArr ys # xs) visitor s =
     visitArrayItems xs visitor (visitArrayItems ys visitor s)"
| "visitArrayItems (x # xs) visitor s = visitArrayItems xs visitor (visitor x s)"

text \<open>The flattened leaves of the spec's data model, and the strings among them.\<close>

fun FlattenedLeaves :: "json list \<Rightarrow> json list" where
  "FlattenedLeaves [] = []"
| "FlattenedLeaves (JArr ys # xs) = FlattenedLeaves ys @ FlattenedLeaves xs"
| "FlattenedLeaves (x # xs) = x # FlattenedLeaves xs"

fun string_of_leaf :: "json \<Rightarrow> string option" where
  "string_of_leaf (JStr s) = Some s"
| "string_of_leaf _ = None"

definition string_leaves :: "json list \<Rightarrow> string list" where
  "string_leaves arr = List.map_filter string_of_leaf (FlattenedLeaves arr)"

subsection \<open>The element tree of a markup fragment\<close>

text \<open>
  The nodes that the DOM parser builds: elements with their attributes and children,
  text, CDATA sections and comments.
\<close>

type_synonym attrs = "(string \<times> string) list"

datatype node =
    Element string attrs "node list"
  | Text string
  | CDATASection string
  | Comment string

text \<open>
  The XPath expression of line 149, \<^verbatim>\<open>//pre/*[not(self::i)]//text()\<close>, selects the text
  nodes (text and CDATA sections) that lie strictly below an element that is not named
  \<^verbatim>\<open>i\<close> and whose parent is an element named \<^verbatim>\<open>pre\<close>. The result is a node set:
  every node once, in document order. \<^verbatim>\<open>xpath.select\<close> asks the document's
  implementation whether it has the feature HTML, which an \<^verbatim>\<open>@xmldom/xmldom\<close> document
  always affirms, and then compares the names of a name test without regard to case:
  the name in the expression and the name of the element are both put in lower case, so
  \<^verbatim>\<open>PRE\<close> is a container and \<^verbatim>\<open>I\<close> is an annotation. The name of an element is its
  local name; namespaces are not modelled. \<open>select_text inside parentIsPre n\<close> walks the
  tree in document order; \<open>inside\<close> says that \<open>n\<close> lies strictly below such an element
  and \<open>parentIsPre\<close> that the parent of \<open>n\<close> is an element named \<^verbatim>\<open>pre\<close>.
\<close>

fun select_text :: "bool \<Rightarrow> bool \<Rightarrow> node \<Rightarrow> node list" where
  "select_text inside parentIsPre (Text d) = (if inside then [Text d] else [])"
| "select_text inside parentIsPre (CDATASection d) = (if inside then [CDATASection d] else [])"
| "select_text inside parentIsPre (Comment d) = []"
| "select_text inside parentIsPre (Element n as ks) =
     concat (map (select_text (inside \<or> (parentIsPre \<and> toLowerCase n \<noteq> toLowerCase ''i''))
                    (toLowerCase n = toLowerCase ''pre'')) ks)"

text \<open>The selection from the document, whose only child is the root element.\<close>

definition xpath_select :: "node \<Rightarrow> node list" where
  "xpath_select doc = select_text False False doc"

text \<open>
  The DOM library (\<^verbatim>\<open>@xmldom/xmldom\<close>) is not part of the repository, so the translator
  takes it as a parameter: \<open>parseFromString\<close> returns the root element, or \<open>None\<close> when
  it throws or builds a document without a root element (in both cases the XPath selects
  nothing); \<open>toString\<close> is the serialisation of a node.
\<close>

record xml_library =
  parseFromString :: "string \<Rightarrow> node option"
  toString :: "node \<Rightarrow> string"

text \<open>
  \<^verbatim>\<open>GoogleTranslator.parseXMLResponse\<close> (lines 146-156); \<open>None\<close> is \<^verbatim>\<open>null\<close>. The
  \<^verbatim>\<open>catch\<close> turns every exception of the parser into \<^verbatim>\<open>null\<close>.
\<close>

definition parseXMLResponse :: "xml_library \<Rightarrow> string \<Rightarrow> string option" where
  "parseXMLResponse lib text =
     (case parseFromString lib text of
        None \<Rightarrow> None
      | Some doc \<Rightarrow>
          (let nodes = xpath_select doc
           in if length nodes = 0 then None
              else Some (join '' '' (map (toString lib) nodes))))"

subsection \<open>A reference model of the DOM library\<close>

text \<open>
  Modelled from the spec: the DOM parser and its serialiser (\<^verbatim>\<open>@xmldom/xmldom\<close>) are
  not among the source files. The spec's Markup Codec (section 4.2) encodes a segment as
  a container element holding one child element with an attribute and raw text, and
  decodes by parsing a leaf as a small element tree. This reference model reads that
  fragment language as XML does: elements with double-quoted attributes, empty-element
  tags and character data; line ends (a carriage return, a next-line character, or a
  carriage return followed by a line feed or a next-line character) are first rewritten to
  one line feed. Entity and character references, CDATA sections, comments, processing
  instructions, document type declarations and namespaces are outside the model, which
  answers \<open>None\<close> for them and for input that is not well formed. In serialised
  character data the markup delimiters are written as entity references.
\<close>

fun normalizeLineEndings :: "string \<Rightarrow> string" where
  "normalizeLineEndings [] = []"
| "normalizeLineEndings [c] = (if c = CHR 0x0D \<or> c = CHR 0x85 then [CHR 0x0A] else [c])"
| "normalizeLineEndings (c # d # ds) =
     (if c = CHR 0x0D \<and> (d = CHR 0x0A \<or> d = CHR 0x85) then CHR 0x0A # normalizeLineEndings ds
      else if c = CHR 0x0D \<or> c = CHR 0x85 then CHR 0x0A # normalizeLineEndings (d # ds)
      else c # normalizeLineEndings (d # ds))"

datatype token = TOpen string attrs | TEmpty string attrs | TClose string | TText string

definition is_space :: "char \<Rightarrow> bool" where
  "is_space c \<longleftrightarrow> c \<in> {CHR '' '', CHR 0x09, CHR 0x0A, CHR 0x0D}"

definition is_name_start :: "char \<Rightarrow> bool" where
  "is_name_start c \<longleftrightarrow>
     c \<in> set ''abcdefghijklmnopqrstuvwxyzABCDEFGHIJKLMNOPQRSTUVWXYZ_''"

definition is_name_char :: "char \<Rightarrow> bool" where
  "is_name_char c \<longleftrightarrow> is_name_start c \<or> c \<in> set ''0123456789-.''"

definition is_name :: "string \<Rightarrow> bool" where
  "is_name s \<longleftrightarrow>
     (case s of [] \<Rightarrow> False | c # cs \<Rightarrow> is_name_start c \<and> list_all is_name_char cs)"

text \<open>
  The attributes of a start tag: each is preceded by white space and written
  \<^verbatim>\<open>name="value"\<close>.
\<close>

function parse_attrs :: "string \<Rightarrow> attrs option" where
  "parse_attrs [] = Some []"
| "parse_attrs (c # cs) =
     (if \<not> is_space c then None
      else let r = dropWhile is_space cs in
        if r = [] then Some []
        else let name = takeWhile is_name_char r; r1 = dropWhile is_name_char r in
          if \<not> is_name name \<or> name = ''xmlns'' then None
          else (case r1 of
              e # q # r2 \<Rightarrow>
                if e = CHR ''='' \<and> q = CHR 0x22 then
                  (let v = takeWhile (\<lambda>x. x \<noteq> CHR 0x22) r2 in
                   case dropWhile (\<lambda>x. x \<noteq> CHR 0x22) r2 of
                     [] \<Rightarrow> None
                   | _ # r3 \<Rightarrow>
                       if CHR ''<'' \<in> set v \<or> CHR ''&'' \<in> set v then None
                       else map_option ((#) (name, v)) (parse_attrs r3))
                else None
            | _ \<Rightarrow> None))"
  by pat_completeness auto

termination parse_attrs
proof (relation "measure length", goal_cases)
  case 1
  show ?case by simp
next
  case (2 c cs r name r1 e list q r2 v x21 r3)
  have "length (x21 # r3) \<le> length r2"
    using 2 length_dropWhile_le [of "\<lambda>x. x \<noteq> CHR 0x22" r2] by simp
  moreover have "r1 = e # q # r2"
    using 2 by simp
  then have "length r2 < length r1"
    by simp
  moreover have "length r1 \<le> length r"
    using 2 by (simp add: length_dropWhile_le)
  moreover have "length r \<le> length cs"
    using 2 by (simp add: length_dropWhile_le)
  ultimately show ?case by simp
qed

declare parse_attrs.simps [simp del]

text \<open>The text between \<^verbatim>\<open><\<close> and \<^verbatim>\<open>>\<close>: an end tag, an empty-element tag or a start tag.\<close>

definition parse_tag :: "string \<Rightarrow> token option" where
  "parse_tag body =
     (case body of
        [] \<Rightarrow> None
      | c # cs \<Rightarrow>
          if c = CHR ''/'' then (if is_name cs then Some (TClose cs) else None)
          else let selfClosing = (last body = CHR ''/'');
                   b = (if selfClosing then butlast body else body);
                   name = takeWhile is_name_char b
               in if \<not> is_name name then None
                  else (case parse_attrs (dropWhile is_name_char b) of
                          None \<Rightarrow> None
                        | Some as \<Rightarrow>
                            Some (if selfClosing then TEmpty name as else TOpen name as)))"

function tokenize :: "string \<Rightarrow> token list option" where
  "tokenize [] = Some []"
| "tokenize (c # cs) =
     (if c = CHR ''<'' then
        (case dropWhile (\<lambda>x. x \<noteq> CHR ''>'') cs of
           [] \<Rightarrow> None
         | _ # rest \<Rightarrow>
             (case parse_tag (takeWhile (\<lambda>x. x \<noteq> CHR ''>'') cs) of
                None \<Rightarrow> None
              | Some t \<Rightarrow> map_option ((#) t) (tokenize rest)))
      else let chars = c # takeWhile (\<lambda>x. x \<noteq> CHR ''<'') cs in
        if CHR ''&'' \<in> set chars then None
        else map_option ((#) (TText chars)) (tokenize (dropWhile (\<lambda>x. x \<noteq> CHR ''<'') cs)))"
  by pat_completeness auto

termination tokenize
proof (relation "measure length", goal_cases)
  case 1
  show ?case by simp
next
  case (2 c cs x rest t)
  then have "length (x # rest) \<le> length cs"
    using length_dropWhile_le [of "\<lambda>x. x \<noteq> CHR ''>''" cs] by simp
  then show ?case by simp
next
  case (3 c cs chars)
  then show ?case by (simp add: length_dropWhile_le less_Suc_eq_le)
qed

declare tokenize.simps [simp del]

text \<open>
  The tree of a token sequence: the stack holds the open elements, each with the
  siblings that precede it; \<open>acc\<close> holds the children of the innermost open element
  read so far, last first.
\<close>

fun build :: "token list \<Rightarrow> (string \<times> attrs \<times> node list) list \<Rightarrow> node list \<Rightarrow> node list option" where
  "build [] [] acc = Some (rev acc)"
| "build [] (_ # _) acc = None"
| "build (TText t # ts) stack acc = build ts stack (Text t # acc)"
| "build (TEmpty n as # ts) stack acc = build ts stack (Element n as [] # acc)"
| "build (TOpen n as # ts) stack acc = build ts ((n, as, acc) # stack) []"
| "build (TClose n # ts) [] acc = None"
| "build (TClose n # ts) ((m, as, saved) # stack) acc =
     (if n = m then build ts stack (Element m as (rev acc) # saved) else None)"

definition xml_parse :: "string \<Rightarrow> node option" where
  "xml_parse source =
     (case tokenize (normalizeLineEndings source) of
        None \<Rightarrow> None
      | Some ts \<Rightarrow>
          (case build ts [] [] of
             Some [Element n as ks] \<Rightarrow> Some (Element n as ks)
           | _ \<Rightarrow> None))"

text \<open>The serialisation of a node.\<close>

definition xml_escape :: "char \<Rightarrow> string" where
  "xml_escape c =
     (if c = CHR ''<'' then ''&lt;'' else if c = CHR ''>'' then ''&gt;''
      else if c = CHR ''&'' then ''&amp;'' else [c])"

fun serialize :: "node \<Rightarrow> string" where
  "serialize (Text d) = concat (map xml_escape d)"
| "serialize (CDATASection d) = ''<![CDATA['' @ d @ '']]>''"
| "serialize (Comment d) = ''<!--'' @ d @ ''-->''"
| "serialize (Element n as ks) =
     ''<'' @ n @ concat (map (\<lambda>(k, v). '' '' @ k @ ''='' @ [CHR 0x22] @ v @ [CHR 0x22]) as)
     @ (if ks = [] then ''/>'' else ''>'' @ concat (map serialize ks) @ ''</'' @ n @ ''>'')"

definition xmldom :: xml_library where
  "xmldom = \<lparr> parseFromString = xml_parse, toString = serialize \<rparr>"

subsection \<open>The collaborators of a call\<close>

text \<open>
  A call ends with the translations or with the value it rejects with: an
  \<^verbatim>\<open>Error\<close> object of this file, which carries its message and nothing else, or the
  rejection of the token service or of the transport, passed on unchanged.
\<close>

datatype failure = Error string | TokenFailure string | TransportFailure string

text \<open>What \<^verbatim>\<open>console.warn\<close> was called with: a label and a value.\<close>

datatype console_arg = ArgJson json | ArgStrings "string list"

type_synonym console = "(string \<times> console_arg) list"

type_synonym 'a outcome = "console \<times> (failure + 'a)"

text \<open>
  A request as the translator hands it over: the HTTP verb, the endpoint, the data given
  to \<^verbatim>\<open>stringify\<close>, and the texts of the \<^verbatim>\<open>q\<close> parameters of the body. Writing the
  query string, percent-encoding, the CORS proxy prefix and the headers belong to the
  transport.
\<close>

record request =
  rq_verb :: string
  rq_apiPath :: string
  rq_data :: "(string \<times> string list) list"
  rq_body :: "string list"

text \<open>
  The token service (\<^verbatim>\<open>getToken\<close> of \<^verbatim>\<open>./token\<close>) and the transport (\<^verbatim>\<open>axios\<close>)
  answer or reject.
\<close>

record env =
  getToken :: "string \<Rightarrow> failure + string"
  axios :: "request \<Rightarrow> failure + json"

subsection \<open>The translator with a token\<close>

definition GoogleTranslator_batchRequest ::
  "string list \<Rightarrow> string \<Rightarrow> string \<Rightarrow> string \<Rightarrow> request" where
  "GoogleTranslator_batchRequest preparedText langFrom langTo tk =
     \<lparr> rq_verb = ''POST'',
       rq_apiPath = ''https://translate.googleapis.com/translate_a/t'',
       rq_data =
         [(''anno'', [''3'']), (''client'', [''te'']), (''v'', [''1.0'']),
          (''format'', [''html'']), (''sl'', [getFixedLanguage langFrom]),
          (''tl'', [getFixedLanguage langTo]), (''tk'', [tk])],
       rq_body = preparedText \<rparr>"

text \<open>
  The visitor of lines 198-212. \<^verbatim>\<open>parsedText || obj\<close> is \<^verbatim>\<open>obj\<close> when the decoder
  returned \<^verbatim>\<open>null\<close> or the empty string.
\<close>

definition GoogleTranslator_visitor ::
  "xml_library \<Rightarrow> bool \<Rightarrow> json \<Rightarrow> string list \<Rightarrow> string list" where
  "GoogleTranslator_visitor lib isSingleResponseMode obj result =
     (if isSingleResponseMode \<and> length result = 1 then result
      else case obj of
          JStr s \<Rightarrow>
            if isSingleResponseMode then
              (case parseXMLResponse lib s of
                 None \<Rightarrow> result @ [s]
               | Some parsedText \<Rightarrow> result @ [if parsedText = [] then s else parsedText])
            else
              (case parseXMLResponse lib s of
                 None \<Rightarrow> result
               | Some parsedText \<Rightarrow> result @ [parsedText])
        | _ \<Rightarrow> result)"

text \<open>The array \<^verbatim>\<open>result\<close> when the visit of the reply ends (lines 195-212).\<close>

definition GoogleTranslator_collect :: "xml_library \<Rightarrow> string list \<Rightarrow> json list \<Rightarrow> string list" where
  "GoogleTranslator_collect lib text rawResp =
     (let isSingleResponseMode = (length text = 1)
      in visitArrayItems rawResp (GoogleTranslator_visitor lib isSingleResponseMode) [])"

text \<open>
  The handler of the reply (lines 189-225): the body of \<^verbatim>\<open>try\<close>, and the \<^verbatim>\<open>catch\<close>
  that logs the reply and throws the error again.
\<close>

definition GoogleTranslator_onResponse ::
  "xml_library \<Rightarrow> string list \<Rightarrow> json \<Rightarrow> string list outcome" where
  "GoogleTranslator_onResponse lib text rawResp =
     (let attempt =
        (case rawResp of
           JArr items \<Rightarrow>
             (let result = GoogleTranslator_collect lib text items
              in if length result \<noteq> length text
                 then Inl (Error ''Mismatching a lengths of original and translated arrays'')
                 else Inr result)
         | _ \<Rightarrow> Inl (Error ''Unexpected response''))
      in case attempt of
           Inl err \<Rightarrow> ([(''Got response'', ArgJson rawResp)], Inl err)
         | Inr result \<Rightarrow> ([], Inr result))"

text \<open>\<^verbatim>\<open>GoogleTranslator.translateBatch\<close> (lines 158-227).\<close>

definition GoogleTranslator_translateBatch ::
  "xml_library \<Rightarrow> env \<Rightarrow> string list \<Rightarrow> string \<Rightarrow> string \<Rightarrow> string list outcome" where
  "GoogleTranslator_translateBatch lib e text langFrom langTo =
     (let preparedText = encodeForBatch text
      in case getToken e (join [] preparedText) of
           Inl err \<Rightarrow> ([], Inl err)
         | Inr tk \<Rightarrow>
             (case axios e (GoogleTranslator_batchRequest preparedText langFrom langTo tk) of
                Inl err \<Rightarrow> ([], Inl err)
              | Inr rawResp \<Rightarrow> GoogleTranslator_onResponse lib text rawResp))"

subsection \<open>The translator without a token\<close>

definition TokenFree_batchRequest :: "string list \<Rightarrow> string \<Rightarrow> string \<Rightarrow> request" where
  "TokenFree_batchRequest text langFrom langTo =
     \<lparr> rq_verb = ''GET'',
       rq_apiPath = ''https://translate.googleapis.com/translate_a/t'',
       rq_data =
         [(''client'', [''dict-chrome-ex'']), (''sl'', [getFixedLanguage langFrom]),
          (''tl'', [getFixedLanguage langTo]), (''q'', text)],
       rq_body = [] \<rparr>"

text \<open>The visitor of lines 274-278, which collects the string leaves.\<close>

definition TokenFree_visitor :: "json \<Rightarrow> string list \<Rightarrow> string list" where
  "TokenFree_visitor obj intermediateTextsArray =
     (case obj of JStr s \<Rightarrow> intermediateTextsArray @ [s] | _ \<Rightarrow> intermediateTextsArray)"

text \<open>
  The loop of lines 285-299 over the indices of the collected strings, in ascending
  order; \<^verbatim>\<open>break\<close> ends it.
\<close>

fun TokenFree_loop :: "bool \<Rightarrow> bool \<Rightarrow> (nat \<times> string) list \<Rightarrow> string list \<Rightarrow> string list" where
  "TokenFree_loop isSingleResponseMode isOneToOneMappingMode [] result = result"
| "TokenFree_loop isSingleResponseMode isOneToOneMappingMode ((idx, text) # rest) result =
     (if isSingleResponseMode then result @ [text]
      else let isTranslation = (isOneToOneMappingMode \<or> idx mod 2 = 0)
           in TokenFree_loop isSingleResponseMode isOneToOneMappingMode rest
                (if isTranslation then result @ [text] else result))"

text \<open>The array \<^verbatim>\<open>result\<close> when the loop ends (lines 273-299).\<close>

definition TokenFree_collect :: "string list \<Rightarrow> json list \<Rightarrow> string list" where
  "TokenFree_collect text rawResp =
     (let intermediateTextsArray = visitArrayItems rawResp TokenFree_visitor [];
          isSingleResponseMode = (length text = 1);
          isOneToOneMappingMode = (length intermediateTextsArray = length text)
      in TokenFree_loop isSingleResponseMode isOneToOneMappingMode
           (enumerate 0 intermediateTextsArray) [])"

text \<open>The handler of the reply (lines 267-313).\<close>

definition TokenFree_onResponse :: "string list \<Rightarrow> json \<Rightarrow> string list outcome" where
  "TokenFree_onResponse text rawResp =
     (let attempt =
        (case rawResp of
           JArr items \<Rightarrow>
             (let result = TokenFree_collect text items
              in if length result \<noteq> length text
                 then ([(''Translation result'', ArgStrings result)],
                       Inl (Error ''Mismatching a lengths of original and translated arrays''))
                 else ([], Inr result))
         | _ \<Rightarrow> ([], Inl (Error ''Unexpected response'')))
      in case attempt of
           (logged, Inl err) \<Rightarrow> (logged @ [(''Got response'', ArgJson rawResp)], Inl err)
         | (logged, Inr result) \<Rightarrow> (logged, Inr result))"

text \<open>\<^verbatim>\<open>GoogleTranslatorTokenFree.translateBatch\<close> (lines 245-314).\<close>

definition GoogleTranslatorTokenFree_translateBatch ::
  "env \<Rightarrow> string list \<Rightarrow> string \<Rightarrow> string \<Rightarrow> string list outcome" where
  "GoogleTranslatorTokenFree_translateBatch e text langFrom langTo =
     (case axios e (TokenFree_batchRequest text langFrom langTo) of
        Inl err \<Rightarrow> ([], Inl err)
      | Inr rawResp \<Rightarrow> TokenFree_onResponse text rawResp)"

text \<open>
  \<^verbatim>\<open>GoogleTranslatorTokenFree.translate\<close> (lines 240-243). The pattern
  \<^verbatim>\<open>[translation]\<close> binds the first element of the array, or \<^verbatim>\<open>undefined\<close> (here
  \<open>None\<close>) when the array is empty.
\<close>

definition GoogleTranslatorTokenFree_translate ::
  "env \<Rightarrow> string \<Rightarrow> string \<Rightarrow> string \<Rightarrow> string option outcome" where
  "GoogleTranslatorTokenFree_translate e text langFrom langTo =
     (case GoogleTranslatorTokenFree_translateBatch e [text] langFrom langTo of
        (logged, Inl err) \<Rightarrow> (logged, Inl err)
      | (logged, Inr translations) \<Rightarrow>
          (logged, Inr (case translations of [] \<Rightarrow> None | translation # _ \<Rightarrow> Some translation)))"

subsection \<open>Notions used in the statements\<close>

text \<open>The elements at the even positions 0, 2, 4, ... of a list.\<close>

fun evens :: "'a list \<Rightarrow> 'a list" where
  "evens [] = []"
| "evens [x] = [x]"
| "evens (x # y # zs) = x # evens zs"

text \<open>
  Two collaborators for concrete calls: one whose token service answers and whose
  transport answers every request with the given reply, and one whose token service and
  transport both reject.
\<close>

definition reply_env :: "json \<Rightarrow> env" where
  "reply_env rawResp = \<lparr> getToken = (\<lambda>_. Inr ''tk''), axios = (\<lambda>_. Inr rawResp) \<rparr>"

definition failing_env :: env where
  "failing_env =
     \<lparr> getToken = (\<lambda>_. Inl (TokenFailure ''no token'')),
       axios = (\<lambda>_. Inl (TransportFailure ''timeout'')) \<rparr>"

text \<open>\<^verbatim>\<open>Array.isArray\<close> on a reply.\<close>

definition isArray :: "json \<Rightarrow> bool" where
  "isArray j = (case j of JArr _ \<Rightarrow> True | _ \<Rightarrow> False)"

text \<open>
  The two fragments that \<^verbatim>\<open>encodeForBatch\<close> writes for the translations
  \<^verbatim>\<open>bonjour\<close> and \<^verbatim>\<open>monde\<close>, as a reply carries them.
\<close>

definition fragment_bonjour :: string where
  \<open>fragment_bonjour = ''<pre><a i="0">bonjour</a></pre>''\<close>

definition fragment_monde :: string where
  \<open>fragment_monde = ''<pre><a i="1">monde</a></pre>''\<close>

text \<open>
  The characters that markup does not carry unchanged as character data: the delimiters
  \<^verbatim>\<open><\<close>, \<^verbatim>\<open>>\<close> and \<^verbatim>\<open>&\<close>, which are read as markup or written as entity
  references, and the line ends (carriage return, next line) that parsing rewrites.
\<close>

definition markup_special :: "char \<Rightarrow> bool" where
  "markup_special c \<longleftrightarrow> c \<in> {CHR ''<'', CHR ''>'', CHR ''&'', CHR 0x0D, CHR 0x85}"










section \<open>Theorems\<close>

subsection \<open>Names in lower case\<close>

lemma toLowerCase_pre: "toLowerCase ''pre'' = ''pre''"
  by (simp add: toLowerCase_def toLowerCase_char_def)

lemma toLowerCase_i: "toLowerCase ''i'' = ''i''"
  by (simp add: toLowerCase_def toLowerCase_char_def)

lemma toLowerCase_a: "toLowerCase ''a'' = ''a''"
  by (simp add: toLowerCase_def toLowerCase_char_def)

subsection \<open>C9: the language-code fixup\<close>

lemma getFixedLanguage_cases:
  "getFixedLanguage x =
     (if x = ''zh'' then ''zh-CN'' else if x = ''he'' then ''iw''
      else if x = ''jv'' then ''jw'' else x)"
  by (simp add: getFixedLanguage_def fixedLanguagesMap_def)

text \<open>
  Claim C9. \<^verbatim>\<open>getFixedLanguage\<close> maps \<^verbatim>\<open>zh\<close> to \<^verbatim>\<open>zh-CN\<close>, \<^verbatim>\<open>he\<close> to
  \<^verbatim>\<open>iw\<close>, \<^verbatim>\<open>jv\<close> to \<^verbatim>\<open>jw\<close> and returns every other code unchanged; applying
  it twice gives the same code as applying it once.
\<close>

theorem getFixedLanguage_table_idempotent:
  "getFixedLanguage ''zh'' = ''zh-CN''
   \<and> getFixedLanguage ''he'' = ''iw''
   \<and> getFixedLanguage ''jv'' = ''jw''
   \<and> (\<forall>x. x \<notin> {''zh'', ''he'', ''jv''} \<longrightarrow> getFixedLanguage x = x)
   \<and> (\<forall>x. getFixedLanguage (getFixedLanguage x) = getFixedLanguage x)"
  by (simp add: getFixedLanguage_cases)

theorem getFixedLanguage_table_idempotent_witness:
  "''en'' \<notin> {''zh'', ''he'', ''jv''} \<and> getFixedLanguage ''en'' = ''en''
   \<and> getFixedLanguage (getFixedLanguage ''he'') = ''iw''"
  using getFixedLanguage_table_idempotent by simp

subsection \<open>The length of the encoded batch\<close>

lemma join_empty_sep: "join [] xs = concat xs"
  by (induction xs rule: induct_list012) simp_all

lemma length_concat_encodeForBatch_from:
  \<open>length (concat (map (\<lambda>(i, text). ''<pre><a i="'' @ Number_toString i @ ''">'' @ text @ ''</a></pre>'')
       (enumerate k ts)))
     = (\<Sum>(i, t)\<leftarrow>enumerate k ts. 23 + length (Number_toString i) + length t)\<close>
  by (induction ts arbitrary: k) simp_all

lemma length_join_encodeForBatch:
  "length (join [] (encodeForBatch ts)) =
     (\<Sum>(i, t)\<leftarrow>enumerate 0 ts. 23 + length (Number_toString i) + length t)"
  unfolding encodeForBatch_def join_empty_sep by (rule length_concat_encodeForBatch_from)

text \<open>
  Claim C8. For an array, \<^verbatim>\<open>checkLimitExceeding\<close> returns the number of characters by
  which the joined encoded segments exceed 4000, and 0 when they do not; the length
  counted is that of the markup as well as of the texts: the segment at index \<open>i\<close>
  counts 23 characters of wrapper, the digits of \<open>i\<close> and its text. For a single
  string, the length of the string alone is compared with 4000.
\<close>

theorem checkLimitExceeding_counts_markup:
  "checkLimitExceeding (TextArray ts) =
     (let total = int (length (join [] (encodeForBatch ts)))
      in if total > 4000 then total - 4000 else 0)
   \<and> length (join [] (encodeForBatch ts)) =
       (\<Sum>(i, t)\<leftarrow>enumerate 0 ts. 23 + length (Number_toString i) + length t)
   \<and> checkLimitExceeding (OneText s) =
     (if int (length s) > 4000 then int (length s) - 4000 else 0)"
  by (simp add: length_join_encodeForBatch getLengthLimit_def Let_def)

theorem checkLimitExceeding_counts_markup_witness:
  "checkLimitExceeding (TextArray [replicate 3990 (CHR ''a'')]) = 14
   \<and> checkLimitExceeding (OneText (replicate 3990 (CHR ''a''))) = 0
   \<and> checkLimitExceeding (OneText (replicate 4001 (CHR ''a''))) = 1"
  using checkLimitExceeding_counts_markup [of "[replicate 3990 (CHR ''a'')]" "replicate 3990 (CHR ''a'')"]
    checkLimitExceeding_counts_markup [of "[]" "replicate 4001 (CHR ''a'')"]
  by (simp add: Number_toString.simps)

subsection \<open>The flattener and the loop of the token-free translator\<close>

lemma visitArrayItems_fold:
  "visitArrayItems arr visitor s = fold visitor (FlattenedLeaves arr) s"
  by (induction arr visitor s rule: visitArrayItems.induct) simp_all

lemma TokenFree_visitor_step:
  "TokenFree_visitor l acc = acc @ (case string_of_leaf l of Some s \<Rightarrow> [s] | None \<Rightarrow> [])"
  by (cases l) (simp_all add: TokenFree_visitor_def)

lemma fold_TokenFree_visitor:
  "fold TokenFree_visitor ls acc = acc @ List.map_filter string_of_leaf ls"
  by (induction ls arbitrary: acc) (simp_all add: TokenFree_visitor_step split: option.split)

lemma visit_TokenFree_visitor:
  "visitArrayItems arr TokenFree_visitor [] = string_leaves arr"
  by (simp add: visitArrayItems_fold fold_TokenFree_visitor string_leaves_def)

lemma TokenFree_loop_one_to_one:
  "TokenFree_loop False True (enumerate k xs) acc = acc @ xs"
  by (induction xs arbitrary: k acc) simp_all

lemma TokenFree_loop_filter:
  "TokenFree_loop False False ixs acc =
     acc @ map snd (filter (\<lambda>(i, x). i mod 2 = 0) ixs)"
  by (induction ixs arbitrary: acc) (auto simp: Let_def)

lemma evens_Cons: "evens (y # zs) = y # evens (drop 1 zs)"
  by (cases zs) simp_all

lemma even_positions_enumerate:
  "map snd (filter (\<lambda>(i, x). i mod 2 = 0) (enumerate k xs)) =
     (if k mod 2 = 0 then evens xs else evens (drop 1 xs))"
proof (induction xs arbitrary: k rule: evens.induct)
  case 1
  show ?case by simp
next
  case (2 x)
  show ?case by simp
next
  case (3 x y zs)
  have a: "Suc (Suc k) mod 2 = k mod 2"
    by presburger
  have b: "Suc k mod 2 = 0 \<longleftrightarrow> k mod 2 \<noteq> 0"
    by presburger
  show ?case
    using "3.IH"[of "Suc (Suc k)"] by (simp add: a b evens_Cons)
qed

lemma TokenFree_loop_parity:
  "TokenFree_loop False False (enumerate 0 xs) [] = evens xs"
  by (simp add: TokenFree_loop_filter even_positions_enumerate)

lemma length_evens: "length (evens xs) = (length xs + 1) div 2"
  by (induction xs rule: evens.induct) simp_all

lemma nth_evens: "i < length (evens xs) \<Longrightarrow> evens xs ! i = xs ! (2 * i)"
proof (induction xs arbitrary: i rule: evens.induct)
  case 1
  then show ?case by simp
next
  case (2 x)
  then show ?case by simp
next
  case (3 x y zs)
  then show ?case by (cases i) simp_all
qed

lemma evens_nth_map:
  assumes "length xs = 2 * n"
  shows "evens xs = map (\<lambda>i. xs ! (2 * i)) [0..<n]"
proof (rule nth_equalityI)
  show "length (evens xs) = length (map (\<lambda>i. xs ! (2 * i)) [0..<n])"
    using assms by (simp add: length_evens)
next
  fix i
  assume "i < length (evens xs)"
  moreover from this have "i < n"
    using assms by (simp add: length_evens)
  ultimately show "evens xs ! i = map (\<lambda>i. xs ! (2 * i)) [0..<n] ! i"
    by (simp add: nth_evens)
qed

text \<open>
  The three modes of the token-free reconciliation, over the strings among the
  flattened leaves: the first string alone, all of them, or those at even positions.
\<close>

lemma TokenFree_collect_cases:
  "TokenFree_collect text items =
     (let collected = string_leaves items in
      if length text = 1 then take 1 collected
      else if length collected = length text then collected
      else evens collected)"
proof -
  have single: "TokenFree_loop True b (enumerate 0 xs) [] = take 1 xs" for b xs
    by (cases xs) simp_all
  show ?thesis
    by (simp add: TokenFree_collect_def visit_TokenFree_visitor Let_def single
        TokenFree_loop_one_to_one TokenFree_loop_parity)
qed

lemma TokenFree_onResponse_array:
  "TokenFree_onResponse text (JArr items) =
     (let result = TokenFree_collect text items in
      if length result \<noteq> length text
      then ([(''Translation result'', ArgStrings result), (''Got response'', ArgJson (JArr items))],
            Inl (Error ''Mismatching a lengths of original and translated arrays''))
      else ([], Inr result))"
  by (simp add: TokenFree_onResponse_def Let_def)

lemma TokenFree_onResponse_success_length:
  "TokenFree_onResponse text rawResp = (logged, Inr result) \<Longrightarrow> length result = length text"
  by (cases rawResp) (auto simp: TokenFree_onResponse_def Let_def split: if_splits)

lemma TokenFree_translateBatch_success_length:
  "GoogleTranslatorTokenFree_translateBatch e text langFrom langTo = (logged, Inr result)
     \<Longrightarrow> length result = length text"
  by (auto simp: GoogleTranslatorTokenFree_translateBatch_def split: sum.splits
      dest: TokenFree_onResponse_success_length)

subsection \<open>C2: the parity filter\<close>

text \<open>
  Claim C2. Without a token and with more than one segment, when the flattened reply
  holds twice as many string leaves as there are segments, the call succeeds and its
  \<open>i\<close>-th result is the string leaf at position \<open>2 * i\<close>, for every \<open>i\<close> below the
  number of segments; the leaves at odd positions are in no result.
\<close>

theorem TokenFree_parity_mode:
  assumes "1 < length text"
    and "axios e (TokenFree_batchRequest text langFrom langTo) = Inr (JArr items)"
    and "length (string_leaves items) = 2 * length text"
  shows "GoogleTranslatorTokenFree_translateBatch e text langFrom langTo =
           ([], Inr (map (\<lambda>i. string_leaves items ! (2 * i)) [0..<length text]))"
proof -
  have "TokenFree_collect text items = evens (string_leaves items)"
    using assms(1,3) by (auto simp add: TokenFree_collect_cases Let_def)
  also have "\<dots> = map (\<lambda>i. string_leaves items ! (2 * i)) [0..<length text]"
    using assms(3) by (rule evens_nth_map)
  finally show ?thesis
    using assms(2) by (simp add: GoogleTranslatorTokenFree_translateBatch_def TokenFree_onResponse_array)
qed

theorem TokenFree_parity_mode_witness:
  "GoogleTranslatorTokenFree_translateBatch
     (reply_env (JArr [JArr [JStr ''un'', JStr ''one''], JNum 3, JArr [JStr ''deux'', JStr ''two'']]))
     [''one'', ''two''] ''en'' ''fr''
   = ([], Inr [''un'', ''deux''])"
  using TokenFree_parity_mode [of "[''one'', ''two'']"
      "reply_env (JArr [JArr [JStr ''un'', JStr ''one''], JNum 3, JArr [JStr ''deux'', JStr ''two'']])"
      "''en''" "''fr''"
      "[JArr [JStr ''un'', JStr ''one''], JNum 3, JArr [JStr ''deux'', JStr ''two'']]"]
  by (simp add: reply_env_def string_leaves_def upt_rec)

subsection \<open>C4: a single segment without a token\<close>

text \<open>
  Claim C4. Without a token and with exactly one segment, the result is the list of the
  first string leaf of the flattened reply alone, whatever follows it. The witness is the
  scenario of the specification: for the input \<^verbatim>\<open>["hi"]\<close>, the replies
  \<^verbatim>\<open>["salut", "hi"]\<close> and \<^verbatim>\<open>["salut"]\<close> both give \<^verbatim>\<open>["salut"]\<close>.
\<close>

theorem TokenFree_single_mode:
  assumes "axios e (TokenFree_batchRequest [t] langFrom langTo) = Inr (JArr items)"
    and "string_leaves items = s # rest"
  shows "GoogleTranslatorTokenFree_translateBatch e [t] langFrom langTo = ([], Inr [s])"
  using assms
  by (simp add: GoogleTranslatorTokenFree_translateBatch_def TokenFree_onResponse_array TokenFree_collect_cases)

theorem TokenFree_single_mode_witness:
  "GoogleTranslatorTokenFree_translateBatch (reply_env (JArr [JStr ''salut'', JStr ''hi''])) [''hi''] ''en'' ''fr''
     = ([], Inr [''salut''])
   \<and> GoogleTranslatorTokenFree_translateBatch (reply_env (JArr [JStr ''salut''])) [''hi''] ''en'' ''fr''
     = ([], Inr [''salut''])"
  using TokenFree_single_mode [of "reply_env (JArr [JStr ''salut'', JStr ''hi''])" "''hi''"
      "''en''" "''fr''" "[JStr ''salut'', JStr ''hi'']" "''salut''" "[''hi'']"]
    TokenFree_single_mode [of "reply_env (JArr [JStr ''salut''])" "''hi''"
      "''en''" "''fr''" "[JStr ''salut'']" "''salut''" "[]"]
  by (simp add: reply_env_def string_leaves_def)

subsection \<open>C10: translating one text without a token\<close>

text \<open>
  Claim C10. \<^verbatim>\<open>GoogleTranslatorTokenFree.translate\<close> of a text is the batch call on
  the list of that text alone: when the batch call rejects, it rejects with the same
  value; when the batch call succeeds, its result is a list of one element and
  \<^verbatim>\<open>translate\<close> returns that element.
\<close>

theorem TokenFree_translate_first_of_batch:
  "(\<forall>logged err. GoogleTranslatorTokenFree_translateBatch e [t] langFrom langTo = (logged, Inl err)
       \<longrightarrow> GoogleTranslatorTokenFree_translate e t langFrom langTo = (logged, Inl err))
   \<and> (\<forall>logged rs.
        GoogleTranslatorTokenFree_translateBatch e [t] langFrom langTo = (logged, Inr rs)
       \<longrightarrow> (\<exists>x. rs = [x]
             \<and> GoogleTranslatorTokenFree_translate e t langFrom langTo = (logged, Inr (Some x))))"
proof (intro conjI allI impI)
  fix logged err
  assume "GoogleTranslatorTokenFree_translateBatch e [t] langFrom langTo = (logged, Inl err)"
  then show "GoogleTranslatorTokenFree_translate e t langFrom langTo = (logged, Inl err)"
    by (simp add: GoogleTranslatorTokenFree_translate_def)
next
  fix logged rs
  assume ok: "GoogleTranslatorTokenFree_translateBatch e [t] langFrom langTo = (logged, Inr rs)"
  then have "length rs = 1"
    by (auto dest: TokenFree_translateBatch_success_length)
  then obtain x where "rs = [x]"
    by (cases rs) auto
  with ok show "\<exists>x. rs = [x]
      \<and> GoogleTranslatorTokenFree_translate e t langFrom langTo = (logged, Inr (Some x))"
    by (simp add: GoogleTranslatorTokenFree_translate_def)
qed

theorem TokenFree_translate_first_of_batch_witness:
  "GoogleTranslatorTokenFree_translateBatch (reply_env (JArr [JStr ''salut'', JStr ''hi''])) [''hi''] ''en'' ''fr''
     = ([], Inr [''salut''])
   \<and> GoogleTranslatorTokenFree_translate (reply_env (JArr [JStr ''salut'', JStr ''hi''])) ''hi'' ''en'' ''fr''
     = ([], Inr (Some ''salut''))
   \<and> GoogleTranslatorTokenFree_translateBatch failing_env [''hi''] ''en'' ''fr''
     = ([], Inl (TransportFailure ''timeout''))
   \<and> GoogleTranslatorTokenFree_translate failing_env ''hi'' ''en'' ''fr''
     = ([], Inl (TransportFailure ''timeout''))"
proof -
  have a: "GoogleTranslatorTokenFree_translateBatch (reply_env (JArr [JStr ''salut'', JStr ''hi''])) [''hi''] ''en'' ''fr''
     = ([], Inr [''salut''])"
    by (simp add: GoogleTranslatorTokenFree_translateBatch_def TokenFree_onResponse_array TokenFree_collect_cases
        reply_env_def string_leaves_def)
  have b: "GoogleTranslatorTokenFree_translateBatch failing_env [''hi''] ''en'' ''fr''
     = ([], Inl (TransportFailure ''timeout''))"
    by (simp add: GoogleTranslatorTokenFree_translateBatch_def failing_env_def)
  show ?thesis
    using a b
      TokenFree_translate_first_of_batch
        [of "reply_env (JArr [JStr ''salut'', JStr ''hi''])" "''hi''" "''en''" "''fr''"]
      TokenFree_translate_first_of_batch [of failing_env "''hi''" "''en''" "''fr''"]
    by simp
qed

subsection \<open>The visit of the translator with a token\<close>

lemma GoogleTranslator_visitor_batch_step:
  "GoogleTranslator_visitor lib False l acc =
     acc @ (case string_of_leaf l of
              None \<Rightarrow> []
            | Some s \<Rightarrow> (case parseXMLResponse lib s of None \<Rightarrow> [] | Some p \<Rightarrow> [p]))"
  by (cases l) (simp_all add: GoogleTranslator_visitor_def split: option.split)

lemma fold_GoogleTranslator_visitor_batch:
  "fold (GoogleTranslator_visitor lib False) ls acc =
     acc @ List.map_filter (parseXMLResponse lib) (List.map_filter string_of_leaf ls)"
  by (induction ls arbitrary: acc)
    (simp_all add: GoogleTranslator_visitor_batch_step split: option.split)

lemma GoogleTranslator_collect_batch:
  "length text \<noteq> 1 \<Longrightarrow>
   GoogleTranslator_collect lib text items =
     List.map_filter (parseXMLResponse lib) (string_leaves items)"
  by (simp add: GoogleTranslator_collect_def visitArrayItems_fold
      fold_GoogleTranslator_visitor_batch string_leaves_def)

lemma GoogleTranslator_onResponse_array:
  "GoogleTranslator_onResponse lib text (JArr items) =
     (let result = GoogleTranslator_collect lib text items in
      if length result \<noteq> length text
      then ([(''Got response'', ArgJson (JArr items))],
            Inl (Error ''Mismatching a lengths of original and translated arrays''))
      else ([], Inr result))"
  by (simp add: GoogleTranslator_onResponse_def Let_def)

lemma GoogleTranslator_onResponse_not_array:
  "\<not> isArray rawResp \<Longrightarrow>
   GoogleTranslator_onResponse lib text rawResp =
     ([(''Got response'', ArgJson rawResp)], Inl (Error ''Unexpected response''))"
  by (cases rawResp) (simp_all add: GoogleTranslator_onResponse_def isArray_def)

lemma TokenFree_onResponse_not_array:
  "\<not> isArray rawResp \<Longrightarrow>
   TokenFree_onResponse text rawResp =
     ([(''Got response'', ArgJson rawResp)], Inl (Error ''Unexpected response''))"
  by (cases rawResp) (simp_all add: TokenFree_onResponse_def isArray_def)

lemma GoogleTranslator_onResponse_success_length:
  "GoogleTranslator_onResponse lib text rawResp = (logged, Inr result)
     \<Longrightarrow> length result = length text"
  by (cases rawResp) (auto simp: GoogleTranslator_onResponse_def Let_def split: if_splits)

lemma GoogleTranslator_translateBatch_success_length:
  "GoogleTranslator_translateBatch lib e text langFrom langTo = (logged, Inr result)
     \<Longrightarrow> length result = length text"
  by (auto simp: GoogleTranslator_translateBatch_def Let_def split: sum.splits
      dest: GoogleTranslator_onResponse_success_length)

lemma GoogleTranslator_translateBatch_reply:
  "getToken e (join [] (encodeForBatch text)) = Inr tk \<Longrightarrow>
   axios e (GoogleTranslator_batchRequest (encodeForBatch text) langFrom langTo tk) = Inr rawResp \<Longrightarrow>
   GoogleTranslator_translateBatch lib e text langFrom langTo =
     GoogleTranslator_onResponse lib text rawResp"
  by (simp add: GoogleTranslator_translateBatch_def Let_def)

lemma TokenFree_translateBatch_reply:
  "axios e (TokenFree_batchRequest text langFrom langTo) = Inr rawResp \<Longrightarrow>
   GoogleTranslatorTokenFree_translateBatch e text langFrom langTo = TokenFree_onResponse text rawResp"
  by (simp add: GoogleTranslatorTokenFree_translateBatch_def)

subsection \<open>Concrete calls\<close>

lemma eval_encode_bonjour_monde:
  "encodeForBatch [''bonjour'', ''monde''] = [fragment_bonjour, fragment_monde]"
  by (simp add: encodeForBatch_def fragment_bonjour_def fragment_monde_def Number_toString.simps
      digit_char_def)

lemma eval_decode_bonjour: "parseXMLResponse xmldom fragment_bonjour = Some ''bonjour''"
  by code_simp

lemma eval_decode_monde: "parseXMLResponse xmldom fragment_monde = Some ''monde''"
  by code_simp

lemma eval_decode_en: "parseXMLResponse xmldom ''en'' = None"
  by code_simp

lemma eval_TokenFree_empty2:
  "GoogleTranslatorTokenFree_translateBatch (reply_env (JArr [])) [''a'', ''b''] ''en'' ''fr'' =
     ([(''Translation result'', ArgStrings []), (''Got response'', ArgJson (JArr []))],
      Inl (Error ''Mismatching a lengths of original and translated arrays''))"
  by (simp add: GoogleTranslatorTokenFree_translateBatch_def reply_env_def TokenFree_onResponse_array
      TokenFree_collect_cases string_leaves_def)

lemma eval_G_empty2:
  "GoogleTranslator_translateBatch xmldom (reply_env (JArr [])) [''a'', ''b''] ''en'' ''fr'' =
     ([(''Got response'', ArgJson (JArr []))],
      Inl (Error ''Mismatching a lengths of original and translated arrays''))"
  by (simp add: GoogleTranslator_translateBatch_def reply_env_def GoogleTranslator_onResponse_array
      GoogleTranslator_collect_batch string_leaves_def)

lemma eval_TokenFree_empty3:
  "GoogleTranslatorTokenFree_translateBatch (reply_env (JArr [])) [''a'', ''b'', ''c''] ''en'' ''fr'' =
     ([(''Translation result'', ArgStrings []), (''Got response'', ArgJson (JArr []))],
      Inl (Error ''Mismatching a lengths of original and translated arrays''))"
  by (simp add: GoogleTranslatorTokenFree_translateBatch_def reply_env_def TokenFree_onResponse_array
      TokenFree_collect_cases string_leaves_def)

lemma eval_G_empty3:
  "GoogleTranslator_translateBatch xmldom (reply_env (JArr [])) [''a'', ''b'', ''c''] ''en'' ''fr'' =
     ([(''Got response'', ArgJson (JArr []))],
      Inl (Error ''Mismatching a lengths of original and translated arrays''))"
  by (simp add: GoogleTranslator_translateBatch_def reply_env_def GoogleTranslator_onResponse_array
      GoogleTranslator_collect_batch string_leaves_def)

lemma eval_TokenFree_one_of_two:
  "GoogleTranslatorTokenFree_translateBatch (reply_env (JArr [JStr ''un''])) [''a'', ''b''] ''en'' ''fr'' =
     ([(''Translation result'', ArgStrings [''un'']), (''Got response'', ArgJson (JArr [JStr ''un'']))],
      Inl (Error ''Mismatching a lengths of original and translated arrays''))"
  by (simp add: GoogleTranslatorTokenFree_translateBatch_def reply_env_def TokenFree_onResponse_array
      TokenFree_collect_cases string_leaves_def)

lemma eval_G_one_of_two:
  "GoogleTranslator_translateBatch xmldom (reply_env (JArr [JStr fragment_bonjour]))
     [''a'', ''b''] ''en'' ''fr'' =
     ([(''Got response'', ArgJson (JArr [JStr fragment_bonjour]))],
      Inl (Error ''Mismatching a lengths of original and translated arrays''))"
  by (simp add: GoogleTranslator_translateBatch_def reply_env_def GoogleTranslator_onResponse_array
      GoogleTranslator_collect_batch string_leaves_def eval_decode_bonjour)

lemma eval_G_bonjour_monde:
  "GoogleTranslator_translateBatch xmldom
     (reply_env (JArr [JStr fragment_bonjour, JStr fragment_monde])) [''hello'', ''world''] ''en'' ''fr''
   = ([], Inr [''bonjour'', ''monde''])"
  by (simp add: GoogleTranslator_translateBatch_def reply_env_def GoogleTranslator_onResponse_array
      GoogleTranslator_collect_batch string_leaves_def eval_decode_bonjour eval_decode_monde)

lemma eval_TokenFree_un_deux:
  "GoogleTranslatorTokenFree_translateBatch (reply_env (JArr [JStr ''un'', JStr ''deux''])) [''one'', ''two''] ''en'' ''fr''
   = ([], Inr [''un'', ''deux''])"
  by (simp add: GoogleTranslatorTokenFree_translateBatch_def reply_env_def TokenFree_onResponse_array
      TokenFree_collect_cases string_leaves_def)

subsection \<open>C1: the length of the result\<close>

text \<open>
  Claim C1, as the code has it. With or without a token, a call that succeeds returns as
  many strings as there are segments; and when the reply is an array and the number of
  reconciled strings differs from the number of segments, the call rejects with the
  \<^verbatim>\<open>Error\<close> whose message is the fixed text
  \<^verbatim>\<open>Mismatching a lengths of original and translated arrays\<close>. The error holds no
  count: the console is told the reply (and, without a token, the reconciled strings),
  nothing else.
\<close>

theorem translateBatch_length_enforced:
  "(\<forall>logged result. GoogleTranslator_translateBatch lib e text langFrom langTo = (logged, Inr result)
       \<longrightarrow> length result = length text)
   \<and> (\<forall>logged result. GoogleTranslatorTokenFree_translateBatch e text langFrom langTo = (logged, Inr result)
       \<longrightarrow> length result = length text)
   \<and> (\<forall>tk items.
        getToken e (join [] (encodeForBatch text)) = Inr tk
        \<and> axios e (GoogleTranslator_batchRequest (encodeForBatch text) langFrom langTo tk)
            = Inr (JArr items)
        \<and> length (GoogleTranslator_collect lib text items) \<noteq> length text
       \<longrightarrow> GoogleTranslator_translateBatch lib e text langFrom langTo =
             ([(''Got response'', ArgJson (JArr items))],
              Inl (Error ''Mismatching a lengths of original and translated arrays'')))
   \<and> (\<forall>items.
        axios e (TokenFree_batchRequest text langFrom langTo) = Inr (JArr items)
        \<and> length (TokenFree_collect text items) \<noteq> length text
       \<longrightarrow> GoogleTranslatorTokenFree_translateBatch e text langFrom langTo =
             ([(''Translation result'', ArgStrings (TokenFree_collect text items)),
               (''Got response'', ArgJson (JArr items))],
              Inl (Error ''Mismatching a lengths of original and translated arrays'')))"
proof (intro conjI allI impI)
  fix logged result
  assume "GoogleTranslator_translateBatch lib e text langFrom langTo = (logged, Inr result)"
  then show "length result = length text"
    by (rule GoogleTranslator_translateBatch_success_length)
next
  fix logged result
  assume "GoogleTranslatorTokenFree_translateBatch e text langFrom langTo = (logged, Inr result)"
  then show "length result = length text"
    by (rule TokenFree_translateBatch_success_length)
next
  fix tk items
  assume "getToken e (join [] (encodeForBatch text)) = Inr tk
        \<and> axios e (GoogleTranslator_batchRequest (encodeForBatch text) langFrom langTo tk)
            = Inr (JArr items)
        \<and> length (GoogleTranslator_collect lib text items) \<noteq> length text"
  then show "GoogleTranslator_translateBatch lib e text langFrom langTo =
             ([(''Got response'', ArgJson (JArr items))],
              Inl (Error ''Mismatching a lengths of original and translated arrays''))"
    by (simp add: GoogleTranslator_translateBatch_reply GoogleTranslator_onResponse_array)
next
  fix items
  assume "axios e (TokenFree_batchRequest text langFrom langTo) = Inr (JArr items)
        \<and> length (TokenFree_collect text items) \<noteq> length text"
  then show "GoogleTranslatorTokenFree_translateBatch e text langFrom langTo =
             ([(''Translation result'', ArgStrings (TokenFree_collect text items)),
               (''Got response'', ArgJson (JArr items))],
              Inl (Error ''Mismatching a lengths of original and translated arrays''))"
    by (simp add: TokenFree_translateBatch_reply TokenFree_onResponse_array Let_def)
qed

theorem translateBatch_length_enforced_witness:
  "GoogleTranslator_translateBatch xmldom
     (reply_env (JArr [JStr fragment_bonjour, JStr fragment_monde])) [''hello'', ''world''] ''en'' ''fr''
     = ([], Inr [''bonjour'', ''monde''])
   \<and> length [''bonjour'', ''monde''] = length [''hello'', ''world'']
   \<and> GoogleTranslatorTokenFree_translateBatch (reply_env (JArr [JStr ''un'', JStr ''deux''])) [''one'', ''two''] ''en'' ''fr''
     = ([], Inr [''un'', ''deux''])
   \<and> length [''un'', ''deux''] = length [''one'', ''two'']
   \<and> length (GoogleTranslator_collect xmldom [''a'', ''b''] [JStr fragment_bonjour]) \<noteq> length [''a'', ''b'']
   \<and> GoogleTranslator_translateBatch xmldom (reply_env (JArr [JStr fragment_bonjour]))
        [''a'', ''b''] ''en'' ''fr'' =
       ([(''Got response'', ArgJson (JArr [JStr fragment_bonjour]))],
        Inl (Error ''Mismatching a lengths of original and translated arrays''))
   \<and> length (TokenFree_collect [''a'', ''b''] [JStr ''un'']) \<noteq> length [''a'', ''b'']
   \<and> GoogleTranslatorTokenFree_translateBatch (reply_env (JArr [JStr ''un''])) [''a'', ''b''] ''en'' ''fr'' =
       ([(''Translation result'', ArgStrings (TokenFree_collect [''a'', ''b''] [JStr ''un''])),
         (''Got response'', ArgJson (JArr [JStr ''un'']))],
        Inl (Error ''Mismatching a lengths of original and translated arrays''))"
proof -
  have a: "length (GoogleTranslator_collect xmldom [''a'', ''b''] [JStr fragment_bonjour])
      \<noteq> length [''a'', ''b'']"
    by (simp add: GoogleTranslator_collect_batch string_leaves_def eval_decode_bonjour)
  have b: "length (TokenFree_collect [''a'', ''b''] [JStr ''un'']) \<noteq> length [''a'', ''b'']"
    by (simp add: TokenFree_collect_cases string_leaves_def)
  have tok: "getToken (reply_env r) s = Inr ''tk''" for r s
    by (simp add: reply_env_def)
  have net: "axios (reply_env r) q = Inr r" for r q
    by (simp add: reply_env_def)
  have c: "length [''bonjour'', ''monde''] = length [''hello'', ''world'']"
    using eval_G_bonjour_monde
      translateBatch_length_enforced [of xmldom
        "reply_env (JArr [JStr fragment_bonjour, JStr fragment_monde])" "[''hello'', ''world'']"
        "''en''" "''fr''"]
    by blast
  have d: "length [''un'', ''deux''] = length [''one'', ''two'']"
    using eval_TokenFree_un_deux
      translateBatch_length_enforced [of xmldom
        "reply_env (JArr [JStr ''un'', JStr ''deux''])" "[''one'', ''two'']" "''en''" "''fr''"]
    by blast
  have e: "GoogleTranslator_translateBatch xmldom (reply_env (JArr [JStr fragment_bonjour]))
        [''a'', ''b''] ''en'' ''fr'' =
       ([(''Got response'', ArgJson (JArr [JStr fragment_bonjour]))],
        Inl (Error ''Mismatching a lengths of original and translated arrays''))"
    using a tok net
      translateBatch_length_enforced [of xmldom
        "reply_env (JArr [JStr fragment_bonjour])" "[''a'', ''b'']" "''en''" "''fr''"]
    by blast
  have f: "GoogleTranslatorTokenFree_translateBatch (reply_env (JArr [JStr ''un''])) [''a'', ''b''] ''en'' ''fr'' =
       ([(''Translation result'', ArgStrings (TokenFree_collect [''a'', ''b''] [JStr ''un''])),
         (''Got response'', ArgJson (JArr [JStr ''un'']))],
        Inl (Error ''Mismatching a lengths of original and translated arrays''))"
    using b net
      translateBatch_length_enforced [of xmldom
        "reply_env (JArr [JStr ''un''])" "[''a'', ''b'']" "''en''" "''fr''"]
    by blast
  from a b c d e f eval_G_bonjour_monde eval_TokenFree_un_deux show ?thesis
    by (intro conjI)
qed

text \<open>
  Claim C1 as stated fails: the rejection does not carry the expected and the actual
  counts. The same empty reply gives two calls with two and with three segments the same
  rejection and the same console output, so neither holds the expected count; and
  replies that reconcile to no string and to one string, for two segments, give the same
  error value, so the error does not hold the actual count.
\<close>

theorem translateBatch_error_without_counts:
  "GoogleTranslatorTokenFree_translateBatch (reply_env (JArr [])) [''a'', ''b''] ''en'' ''fr''
     = GoogleTranslatorTokenFree_translateBatch (reply_env (JArr [])) [''a'', ''b'', ''c''] ''en'' ''fr''
   \<and> GoogleTranslator_translateBatch xmldom (reply_env (JArr [])) [''a'', ''b''] ''en'' ''fr''
     = GoogleTranslator_translateBatch xmldom (reply_env (JArr [])) [''a'', ''b'', ''c''] ''en'' ''fr''
   \<and> snd (GoogleTranslatorTokenFree_translateBatch (reply_env (JArr [])) [''a'', ''b''] ''en'' ''fr'')
     = Inl (Error ''Mismatching a lengths of original and translated arrays'')
   \<and> snd (GoogleTranslatorTokenFree_translateBatch (reply_env (JArr [JStr ''un''])) [''a'', ''b''] ''en'' ''fr'')
     = Inl (Error ''Mismatching a lengths of original and translated arrays'')
   \<and> snd (GoogleTranslator_translateBatch xmldom (reply_env (JArr [])) [''a'', ''b''] ''en'' ''fr'')
     = Inl (Error ''Mismatching a lengths of original and translated arrays'')
   \<and> snd (GoogleTranslator_translateBatch xmldom (reply_env (JArr [JStr fragment_bonjour]))
            [''a'', ''b''] ''en'' ''fr'')
     = Inl (Error ''Mismatching a lengths of original and translated arrays'')"
  by (simp add: eval_TokenFree_empty2 eval_TokenFree_empty3 eval_G_empty2 eval_G_empty3
      eval_TokenFree_one_of_two eval_G_one_of_two)

subsection \<open>C5: replies of an unexpected shape\<close>

text \<open>
  Claim C5, as the code has it. With or without a token, a reply that is not an array
  is rejected with the \<^verbatim>\<open>Error\<close> \<^verbatim>\<open>Unexpected response\<close> before anything is
  reconciled: only the reply is logged. An empty array passes this check: no string is
  reconciled from it, so the call returns the empty list when there is no segment, and
  otherwise is rejected by the length check with the mismatch error.
\<close>

theorem translateBatch_shape_check:
  "(\<forall>rawResp. \<not> isArray rawResp
        \<and> axios e (TokenFree_batchRequest text langFrom langTo) = Inr rawResp
       \<longrightarrow> GoogleTranslatorTokenFree_translateBatch e text langFrom langTo =
             ([(''Got response'', ArgJson rawResp)], Inl (Error ''Unexpected response'')))
   \<and> (\<forall>tk rawResp. \<not> isArray rawResp
        \<and> getToken e (join [] (encodeForBatch text)) = Inr tk
        \<and> axios e (GoogleTranslator_batchRequest (encodeForBatch text) langFrom langTo tk) = Inr rawResp
       \<longrightarrow> GoogleTranslator_translateBatch lib e text langFrom langTo =
             ([(''Got response'', ArgJson rawResp)], Inl (Error ''Unexpected response'')))
   \<and> (axios e (TokenFree_batchRequest text langFrom langTo) = Inr (JArr [])
       \<longrightarrow> GoogleTranslatorTokenFree_translateBatch e text langFrom langTo =
             (if text = [] then ([], Inr [])
              else ([(''Translation result'', ArgStrings []), (''Got response'', ArgJson (JArr []))],
                    Inl (Error ''Mismatching a lengths of original and translated arrays''))))
   \<and> (\<forall>tk. getToken e (join [] (encodeForBatch text)) = Inr tk
        \<and> axios e (GoogleTranslator_batchRequest (encodeForBatch text) langFrom langTo tk)
            = Inr (JArr [])
       \<longrightarrow> GoogleTranslator_translateBatch lib e text langFrom langTo =
             (if text = [] then ([], Inr [])
              else ([(''Got response'', ArgJson (JArr []))],
                    Inl (Error ''Mismatching a lengths of original and translated arrays''))))"
proof -
  have a: "TokenFree_collect text [] = []"
    by (simp add: TokenFree_collect_cases string_leaves_def)
  have b: "GoogleTranslator_collect lib text [] = []"
    by (simp add: GoogleTranslator_collect_def)
  show ?thesis
    by (auto simp: TokenFree_translateBatch_reply TokenFree_onResponse_not_array
        GoogleTranslator_translateBatch_reply GoogleTranslator_onResponse_not_array
        TokenFree_onResponse_array GoogleTranslator_onResponse_array a b)
qed

theorem translateBatch_shape_check_witness:
  "\<not> isArray (JObj [(''error'', JStr ''quota'')])
   \<and> GoogleTranslatorTokenFree_translateBatch (reply_env (JObj [(''error'', JStr ''quota'')])) [''hi''] ''en'' ''fr'' =
       ([(''Got response'', ArgJson (JObj [(''error'', JStr ''quota'')]))],
        Inl (Error ''Unexpected response''))
   \<and> \<not> isArray (JStr ''<html></html>'')
   \<and> GoogleTranslator_translateBatch xmldom (reply_env (JStr ''<html></html>'')) [''hi''] ''en'' ''fr'' =
       ([(''Got response'', ArgJson (JStr ''<html></html>''))], Inl (Error ''Unexpected response''))
   \<and> GoogleTranslatorTokenFree_translateBatch (reply_env (JArr [])) [''hi''] ''en'' ''fr'' =
       ([(''Translation result'', ArgStrings []), (''Got response'', ArgJson (JArr []))],
        Inl (Error ''Mismatching a lengths of original and translated arrays''))
   \<and> GoogleTranslator_translateBatch xmldom (reply_env (JArr [])) [''hi''] ''en'' ''fr'' =
       ([(''Got response'', ArgJson (JArr []))],
        Inl (Error ''Mismatching a lengths of original and translated arrays''))"
  using translateBatch_shape_check [of "reply_env (JObj [(''error'', JStr ''quota'')])"
      "[''hi'']" "''en''" "''fr''" xmldom]
    translateBatch_shape_check [of "reply_env (JStr ''<html></html>'')"
      "[''hi'']" "''en''" "''fr''" xmldom]
    translateBatch_shape_check [of "reply_env (JArr [])" "[''hi'']" "''en''" "''fr''" xmldom]
  by (simp add: reply_env_def isArray_def)

text \<open>
  Claim C5 as stated fails for the empty array: for one segment both translators reject
  with the mismatch error, which is not the error of an unexpected shape, and for no
  segment both return the empty list.
\<close>

theorem empty_reply_not_unexpected_shape:
  "GoogleTranslatorTokenFree_translateBatch (reply_env (JArr [])) [''hi''] ''en'' ''fr'' =
       ([(''Translation result'', ArgStrings []), (''Got response'', ArgJson (JArr []))],
        Inl (Error ''Mismatching a lengths of original and translated arrays''))
   \<and> GoogleTranslator_translateBatch xmldom (reply_env (JArr [])) [''hi''] ''en'' ''fr'' =
       ([(''Got response'', ArgJson (JArr []))],
        Inl (Error ''Mismatching a lengths of original and translated arrays''))
   \<and> Error ''Mismatching a lengths of original and translated arrays'' \<noteq> Error ''Unexpected response''
   \<and> GoogleTranslatorTokenFree_translateBatch (reply_env (JArr [])) [] ''en'' ''fr'' = ([], Inr [])
   \<and> GoogleTranslator_translateBatch xmldom (reply_env (JArr [])) [] ''en'' ''fr'' = ([], Inr [])"
  by (simp add: GoogleTranslatorTokenFree_translateBatch_def reply_env_def TokenFree_onResponse_array
      TokenFree_collect_cases string_leaves_def GoogleTranslator_translateBatch_def
      GoogleTranslator_onResponse_array GoogleTranslator_collect_def encodeForBatch_def)

subsection \<open>C3: the batch with a token keeps what decodes\<close>

text \<open>
  Claim C3. With a token and more than one segment, every string leaf of the flattened
  reply is given to the markup decoder; the result holds, in order, the decoded text of
  exactly the leaves whose decoding is not \<^verbatim>\<open>null\<close>. A leaf that does not decode
  is dropped and raises nothing: the call succeeds when as many leaves decode as there
  are segments.
\<close>

theorem GoogleTranslator_batch_keeps_decoded:
  assumes "1 < length text"
    and "getToken e (join [] (encodeForBatch text)) = Inr tk"
    and "axios e (GoogleTranslator_batchRequest (encodeForBatch text) langFrom langTo tk)
           = Inr (JArr items)"
  shows "GoogleTranslator_collect lib text items =
           map (the \<circ> parseXMLResponse lib)
             (filter (\<lambda>leaf. parseXMLResponse lib leaf \<noteq> None) (string_leaves items))
         \<and> GoogleTranslator_translateBatch lib e text langFrom langTo =
           (if length (GoogleTranslator_collect lib text items) = length text
            then ([], Inr (GoogleTranslator_collect lib text items))
            else ([(''Got response'', ArgJson (JArr items))],
                  Inl (Error ''Mismatching a lengths of original and translated arrays'')))"
  using assms
  by (simp add: GoogleTranslator_collect_batch List.map_filter_def
      GoogleTranslator_translateBatch_reply GoogleTranslator_onResponse_array Let_def)

theorem GoogleTranslator_batch_keeps_decoded_witness:
  "GoogleTranslator_translateBatch xmldom
     (reply_env (JArr [JArr [JStr fragment_bonjour, JStr ''en''], JStr fragment_monde]))
     [''hello'', ''world''] ''en'' ''fr''
   = ([], Inr [''bonjour'', ''monde''])"
  using GoogleTranslator_batch_keeps_decoded [of "[''hello'', ''world'']"
      "reply_env (JArr [JArr [JStr fragment_bonjour, JStr ''en''], JStr fragment_monde])"
      "''tk''" "''en''" "''fr''"
      "[JArr [JStr fragment_bonjour, JStr ''en''], JStr fragment_monde]" xmldom]
  by (simp add: reply_env_def string_leaves_def eval_decode_bonjour eval_decode_monde eval_decode_en)

subsection \<open>The reference parser on an encoded fragment\<close>

lemma digit_char_in: "d < 10 \<Longrightarrow> digit_char d \<in> set ''0123456789''"
  unfolding digit_char_def by (rule nth_mem) simp

lemma set_Number_toString: "set (Number_toString n) \<subseteq> set ''0123456789''"
proof (induction n rule: Number_toString.induct)
  case (1 n)
  show ?case
  proof (cases "n < 10")
    case True
    then show ?thesis
      using digit_char_in [of n] by (subst Number_toString.simps) simp
  next
    case False
    have "digit_char (n mod 10) \<in> set ''0123456789''"
      by (rule digit_char_in) simp
    with False "1.IH" show ?thesis
      by (subst Number_toString.simps) simp
  qed
qed

lemma normalizeLineEndings_plain:
  "CHR 0x0D \<notin> set s \<Longrightarrow> CHR 0x85 \<notin> set s \<Longrightarrow> normalizeLineEndings s = s"
  by (induction s rule: normalizeLineEndings.induct) auto

lemma takeWhile_until:
  "\<forall>x \<in> set xs. x \<noteq> c \<Longrightarrow> takeWhile (\<lambda>x. x \<noteq> c) (xs @ c # rest) = xs"
  by (induction xs) simp_all

lemma dropWhile_until:
  "\<forall>x \<in> set xs. x \<noteq> c \<Longrightarrow> dropWhile (\<lambda>x. x \<noteq> c) (xs @ c # rest) = c # rest"
  by (induction xs) simp_all

lemma tokenize_tag:
  assumes "CHR ''>'' \<notin> set body" and "parse_tag body = Some t"
  shows "tokenize (CHR ''<'' # body @ CHR ''>'' # rest) = map_option ((#) t) (tokenize rest)"
proof -
  have "\<forall>x \<in> set body. x \<noteq> CHR ''>''"
    using assms(1) by auto
  then show ?thesis
    using assms(2) by (simp add: tokenize.simps takeWhile_until dropWhile_until)
qed

lemma tokenize_chars:
  assumes "T \<noteq> []" and "CHR ''<'' \<notin> set T" and "CHR ''&'' \<notin> set T"
  shows "tokenize (T @ CHR ''<'' # rest) = map_option ((#) (TText T)) (tokenize (CHR ''<'' # rest))"
proof -
  obtain c cs where T: "T = c # cs"
    using assms(1) by (cases T) auto
  have c: "c \<noteq> CHR ''<''" "CHR ''&'' \<noteq> c" "CHR ''&'' \<notin> set cs"
    using assms(2,3) T by auto
  have "\<forall>x \<in> set cs. x \<noteq> CHR ''<''"
    using assms(2) T by auto
  then have cs: "takeWhile (\<lambda>x. x \<noteq> CHR ''<'') (cs @ CHR ''<'' # rest) = cs"
    "dropWhile (\<lambda>x. x \<noteq> CHR ''<'') (cs @ CHR ''<'' # rest) = CHR ''<'' # rest"
    by (simp_all add: takeWhile_until dropWhile_until)
  have "tokenize (c # cs @ CHR ''<'' # rest) =
      map_option ((#) (TText (c # cs))) (tokenize (CHR ''<'' # rest))"
    by (subst tokenize.simps(2)) (simp add: c cs)
  then show ?thesis
    by (simp add: T)
qed

lemma parse_tag_pre: "parse_tag ''pre'' = Some (TOpen ''pre'' [])"
  by code_simp

lemma parse_tag_end_a: "parse_tag ''/a'' = Some (TClose ''a'')"
  by code_simp

lemma parse_tag_end_pre: "parse_tag ''/pre'' = Some (TClose ''pre'')"
  by code_simp

lemma parse_attrs_i:
  assumes "CHR 0x22 \<notin> set v" and "CHR ''<'' \<notin> set v" and "CHR ''&'' \<notin> set v"
  shows "parse_attrs (CHR '' '' # CHR ''i'' # CHR ''='' # CHR 0x22 # v @ [CHR 0x22]) = Some [(''i'', v)]"
proof -
  have "\<forall>x \<in> set v. x \<noteq> CHR 0x22"
    using assms(1) by auto
  then have "takeWhile (\<lambda>x. x \<noteq> CHR 0x22) (v @ [CHR 0x22]) = v"
    and "dropWhile (\<lambda>x. x \<noteq> CHR 0x22) (v @ [CHR 0x22]) = [CHR 0x22]"
    by (simp_all add: takeWhile_until dropWhile_until)
  then show ?thesis
    using assms(2,3)
    by (simp add: parse_attrs.simps is_space_def is_name_char_def is_name_start_def is_name_def)
qed

lemma parse_tag_a:
  assumes "CHR 0x22 \<notin> set v" and "CHR ''<'' \<notin> set v" and "CHR ''&'' \<notin> set v"
  shows "parse_tag (CHR ''a'' # CHR '' '' # CHR ''i'' # CHR ''='' # CHR 0x22 # v @ [CHR 0x22])
           = Some (TOpen ''a'' [(''i'', v)])"
  using parse_attrs_i [OF assms]
  by (simp add: parse_tag_def is_name_char_def is_name_start_def is_name_def)


lemma nth_encodeForBatch:
  assumes "i < length textList"
  shows \<open>encodeForBatch textList ! i =
    CHR ''<'' # ''pre'' @ CHR ''>'' #
    CHR ''<'' # (CHR ''a'' # CHR '' '' # CHR ''i'' # CHR ''='' # CHR 0x22 # Number_toString i @ [CHR 0x22]) @ CHR ''>'' #
    (textList ! i) @ CHR ''<'' # ''/a'' @ CHR ''>'' # CHR ''<'' # ''/pre'' @ CHR ''>'' # []\<close>
  using assms by (simp add: encodeForBatch_def nth_enumerate_eq)

lemma digits_not_special:
  "CHR 0x22 \<notin> set (Number_toString i)" "CHR ''<'' \<notin> set (Number_toString i)"
  "CHR ''&'' \<notin> set (Number_toString i)" "CHR ''>'' \<notin> set (Number_toString i)"
  "CHR 0x0D \<notin> set (Number_toString i)" "CHR 0x85 \<notin> set (Number_toString i)"
  using set_Number_toString [of i] by auto

lemma serialize_plain_text:
  "\<forall>c \<in> set T. \<not> markup_special c \<Longrightarrow> serialize (Text T) = T"
  by (induction T) (simp_all add: markup_special_def xml_escape_def)

lemma xml_parse_fragment:
  assumes "i < length textList" and "textList ! i \<noteq> []"
    and "\<forall>c \<in> set (textList ! i). \<not> markup_special c"
  shows "xml_parse (encodeForBatch textList ! i) =
    Some (Element ''pre'' [] [Element ''a'' [(''i'', Number_toString i)] [Text (textList ! i)]])"
proof -
  let ?T = "textList ! i"
  let ?ds = "Number_toString i"
  let ?a = "CHR ''a'' # CHR '' '' # CHR ''i'' # CHR ''='' # CHR 0x22 # ?ds @ [CHR 0x22]"
  have T: "CHR ''<'' \<notin> set ?T" "CHR ''&'' \<notin> set ?T" "CHR 0x0D \<notin> set ?T" "CHR 0x85 \<notin> set ?T"
    using assms(3) by (auto simp: markup_special_def)
  have plain: "normalizeLineEndings (encodeForBatch textList ! i) = encodeForBatch textList ! i"
    using T(3,4) digits_not_special(5,6) [of i]
    by (intro normalizeLineEndings_plain) (simp_all add: nth_encodeForBatch [OF assms(1)])
  have a: "parse_tag ?a = Some (TOpen ''a'' [(''i'', ?ds)])"
    by (rule parse_tag_a) (rule digits_not_special)+
  have a_gt: "CHR ''>'' \<notin> set ?a"
    using digits_not_special(4) [of i] by simp
  have tok_pre: "tokenize (CHR ''<'' # ''pre'' @ CHR ''>'' # rest) =
      map_option ((#) (TOpen ''pre'' [])) (tokenize rest)" for rest
    by (rule tokenize_tag [OF _ parse_tag_pre]) simp
  have tok_a: "tokenize (CHR ''<'' # ?a @ CHR ''>'' # rest) =
      map_option ((#) (TOpen ''a'' [(''i'', ?ds)])) (tokenize rest)" for rest
    by (rule tokenize_tag [OF a_gt a])
  have tok_T: "tokenize (?T @ CHR ''<'' # rest) =
      map_option ((#) (TText ?T)) (tokenize (CHR ''<'' # rest))" for rest
    by (rule tokenize_chars [OF assms(2) T(1,2)])
  have tok_end_a: "tokenize (CHR ''<'' # ''/a'' @ CHR ''>'' # rest) =
      map_option ((#) (TClose ''a'')) (tokenize rest)" for rest
    by (rule tokenize_tag [OF _ parse_tag_end_a]) simp
  have tok_end_pre: "tokenize (CHR ''<'' # ''/pre'' @ CHR ''>'' # rest) =
      map_option ((#) (TClose ''pre'')) (tokenize rest)" for rest
    by (rule tokenize_tag [OF _ parse_tag_end_pre]) simp
  have "tokenize (encodeForBatch textList ! i) =
      Some [TOpen ''pre'' [], TOpen ''a'' [(''i'', ?ds)], TText ?T, TClose ''a'', TClose ''pre'']"
    unfolding nth_encodeForBatch [OF assms(1)]
    by (simp only: tok_pre tok_a tok_T tok_end_a tok_end_pre tokenize.simps(1) option.map)
  then show ?thesis
    by (simp add: xml_parse_def plain)
qed

subsection \<open>C6: decoding what was encoded\<close>

text \<open>
  Claim C6, as the code has it. For every text that is not empty and holds no
  markup-special character, decoding the fragment that \<^verbatim>\<open>encodeForBatch\<close> writes for
  it, at any index, returns the text unchanged.
\<close>

theorem decode_encode_round_trip:
  assumes "i < length textList" and "textList ! i \<noteq> []"
    and "\<forall>c \<in> set (textList ! i). \<not> markup_special c"
  shows "parseXMLResponse xmldom (encodeForBatch textList ! i) = Some (textList ! i)"
  using assms(3)
  by (simp add: parseXMLResponse_def xmldom_def xml_parse_fragment [OF assms] xpath_select_def
      serialize_plain_text toLowerCase_pre toLowerCase_i toLowerCase_a del: serialize.simps)

theorem decode_encode_round_trip_witness:
  "parseXMLResponse xmldom (encodeForBatch [''hello'', ''world''] ! 1) = Some ''world''"
  using decode_encode_round_trip [of 1 "[''hello'', ''world'']"]
  by (simp add: markup_special_def)

text \<open>
  Claim C6 as stated fails for the empty text, which holds no markup-special character:
  its fragment has no text node, and the decoder returns \<^verbatim>\<open>null\<close>, not the empty
  text.
\<close>

theorem decode_encode_empty_text:
  "parseXMLResponse xmldom (encodeForBatch [''''] ! 0) = None
   \<and> list_all (\<lambda>c. \<not> markup_special c) ''''"
  by code_simp

subsection \<open>C7: what the decoder extracts\<close>


















end
